theory Spec2Isabelle
  imports Complex_Main "HOL-Library.Multiset"
begin

section \<open>Geographic bounds\<close>

text \<open>
  The map component (\<^verbatim>\<open>Map.jsx\<close>) computes every extent with the map-surface library's
  \<^verbatim>\<open>LatLng\<close> and \<^verbatim>\<open>LatLngBounds\<close> objects. Coordinates are JavaScript numbers; only
  comparison, minimum and maximum are applied to them, which are exact, so they are
  modelled as reals.
\<close>

record LatLng =
  lat :: real
  lng :: real

text \<open>
  Modelled from the spec: the map-surface library (Leaflet) is a collaborator whose code
  is not part of the sources. A \<^verbatim>\<open>LatLngBounds\<close> is the spec's GeoBounds: either empty
  (no corner set yet, as \<^verbatim>\<open>Leaflet.latLngBounds()\<close> returns it) or a south-west and a
  north-east corner.
\<close>

datatype LatLngBounds = EmptyBounds | Bounds LatLng LatLng

text \<open>
  Modelled from the spec: \<^verbatim>\<open>bounds.extend(latlng)\<close>. The first point of an empty bounds
  becomes both corners; afterwards the corners move by minimum and maximum.
\<close>

fun extend_point :: "LatLngBounds \<Rightarrow> LatLng \<Rightarrow> LatLngBounds" where
  "extend_point EmptyBounds p = Bounds p p"
| "extend_point (Bounds sw ne) p =
     Bounds \<lparr>lat = min (lat p) (lat sw), lng = min (lng p) (lng sw)\<rparr>
            \<lparr>lat = max (lat p) (lat ne), lng = max (lng p) (lng ne)\<rparr>"

text \<open>
  Modelled from the spec: \<^verbatim>\<open>bounds.extend(otherBounds)\<close>, the union of two extents (spec
  section 3: union with the empty extent is the identity). Extending by an empty bounds
  returns the receiver; extending an empty bounds copies the argument's corners.
\<close>

fun extend_bounds :: "LatLngBounds \<Rightarrow> LatLngBounds \<Rightarrow> LatLngBounds" where
  "extend_bounds b EmptyBounds = b"
| "extend_bounds EmptyBounds (Bounds sw2 ne2) = Bounds sw2 ne2"
| "extend_bounds (Bounds sw ne) (Bounds sw2 ne2) =
     Bounds \<lparr>lat = min (lat sw2) (lat sw), lng = min (lng sw2) (lng sw)\<rparr>
            \<lparr>lat = max (lat ne2) (lat ne), lng = max (lng ne2) (lng ne)\<rparr>"

text \<open>
  Modelled from the spec: \<^verbatim>\<open>bounds.contains(latlng)\<close>, the closed rectangle test. On an
  empty bounds the library dereferences a missing corner and throws, which is \<open>None\<close>.
\<close>

fun contains :: "LatLngBounds \<Rightarrow> LatLng \<Rightarrow> bool option" where
  "contains EmptyBounds p = None"
| "contains (Bounds sw ne) p =
     Some (lat sw \<le> lat p \<and> lat p \<le> lat ne \<and> lng sw \<le> lng p \<and> lng p \<le> lng ne)"

text \<open>
  Modelled from the spec: the library reads a two-element (or three-element, with an
  altitude) array of numbers as a \<^verbatim>\<open>[lat, lng]\<close> point and nothing else.
\<close>

fun toLatLng :: "real list \<Rightarrow> LatLng option" where
  "toLatLng [a, b] = Some \<lparr>lat = a, lng = b\<rparr>"
| "toLatLng [a, b, c] = Some \<lparr>lat = a, lng = b\<rparr>"
| "toLatLng xs = None"

text \<open>
  Modelled from the spec: \<^verbatim>\<open>Leaflet.latLngBounds(corners)\<close> with one array argument
  starts from the empty bounds and extends it by each corner in turn; an array that is
  not a point contributes nothing.
\<close>

definition latLngBounds :: "real list list \<Rightarrow> LatLngBounds" where
  "latLngBounds corners =
     foldl (\<lambda>b c. case toLatLng c of None \<Rightarrow> b | Some p \<Rightarrow> extend_point b p)
       EmptyBounds corners"

section \<open>Tile metadata documents\<close>

text \<open>The JSON document fetched for one tile (\<^verbatim>\<open>info\<close> in the source).\<close>

record tileJson =
  info_name :: string
  info_bounds :: "real list"
  info_tiles :: "string list"
  info_minzoom :: int
  info_maxzoom :: int
  info_scheme :: "string option"

text \<open>JavaScript's \<^verbatim>\<open>xs.slice(i, j)\<close> for indices \<open>0 \<le> i \<le> j\<close>.\<close>

definition slice :: "nat \<Rightarrow> nat \<Rightarrow> 'a list \<Rightarrow> 'a list" where
  "slice i j xs = take (j - i) (drop i xs)"

text \<open>
  Lines 169 to 171: the two arrays handed to \<^verbatim>\<open>Leaflet.latLngBounds\<close>,
  \<^verbatim>\<open>[info.bounds.slice(0, 2).reverse(), info.bounds.slice(2, 4).reverse()]\<close>.
\<close>

definition corners :: "tileJson \<Rightarrow> real list list" where
  "corners info = [rev (slice 0 2 (info_bounds info)), rev (slice 2 4 (info_bounds info))]"

definition layerBounds :: "tileJson \<Rightarrow> LatLngBounds" where
  "layerBounds info = latLngBounds (corners info)"

text \<open>The document used to refute the exact axis swap: its west edge lies east of its east edge.\<close>

definition wrapped_document :: tileJson where
  "wrapped_document =
     \<lparr>info_name = ''wrapped'', info_bounds = [10, 0, -10, 5], info_tiles = [''t/{z}/{x}/{y}.png''],
      info_minzoom = 0, info_maxzoom = 18, info_scheme = None\<rparr>"

section \<open>JavaScript values and exceptions\<close>

datatype js_exn = TypeError

text \<open>
  The outcome of running a handler: it returns, or it throws with the world as the
  statements before the throw left it.
\<close>

datatype 'a result = Returned 'a | Threw js_exn 'a

fun world_of :: "'a result \<Rightarrow> 'a" where
  "world_of (Returned w) = w"
| "world_of (Threw e w) = w"

text \<open>
  The third argument of the request's \<^verbatim>\<open>fail\<close> callback (\<^verbatim>\<open>err\<close> at line 205): the
  textual status of the response, a string, or an exception object with a message.
\<close>

datatype js_error = StatusText string | ErrorObject string

text \<open>JavaScript truthiness, as \<^verbatim>\<open>if (err)\<close> tests it: the empty string is falsy.\<close>

fun truthy :: "js_error \<Rightarrow> bool" where
  "truthy (StatusText s) = (s \<noteq> [])"
| "truthy (ErrorObject m) = True"

text \<open>\<^verbatim>\<open>err.message\<close>: a string has no such property, which reads as undefined (\<open>None\<close>).\<close>

fun message :: "js_error \<Rightarrow> string option" where
  "message (StatusText s) = None"
| "message (ErrorObject m) = Some m"

text \<open>An error argument that may be null or absent (\<open>None\<close>), tested by \<^verbatim>\<open>if (err)\<close>.\<close>

fun is_err :: "js_error option \<Rightarrow> bool" where
  "is_err None = False"
| "is_err (Some e) = truthy e"

section \<open>The component and its surroundings\<close>

text \<open>
  A tile's \<^verbatim>\<open>meta\<close> is an object shared by reference between the descriptor and the
  layer made from it, so meta objects live in a store and are named by their address.
\<close>

type_synonym ref = nat

record meta =
  project :: int
  task :: int
  meta_name :: "string option"

record tile =
  url :: string
  tile_meta :: ref

record props =
  showBackground :: bool
  tiles :: "tile list"
  opacity :: real

text \<open>
  A tile layer of the map-surface library, as line 172 builds it: the first tile URL of
  the document, the options, whether the layer is on a map (\<^verbatim>\<open>layer._map\<close>), the title of
  the popup bound to it and the meta object stored under \<^verbatim>\<open>Symbol.for("meta")\<close>.
\<close>

record tileLayer =
  layer_url :: string
  opt_bounds :: LatLngBounds
  opt_minZoom :: int
  opt_maxZoom :: int
  opt_tms :: bool
  opt_opacity :: real
  on_map :: bool
  popup_title :: string
  layer_meta :: ref

text \<open>A pending request; \<open>req_meta\<close> is the \<^verbatim>\<open>meta\<close> its handlers close over.\<close>

record jqXHR =
  req_url :: string
  req_meta :: ref

record polygon =
  points :: "LatLng list"
  color :: string

text \<open>
  Everything the component reads or writes: its own fields (\<^verbatim>\<open>this.props\<close>,
  \<^verbatim>\<open>this.state.error\<close>, \<^verbatim>\<open>this.imageryLayers\<close>, \<^verbatim>\<open>this.basemaps\<close>, \<^verbatim>\<open>this.mapBounds\<close>,
  \<^verbatim>\<open>this.map\<close>, \<^verbatim>\<open>this.tileJsonRequests\<close>, \<^verbatim>\<open>this.container\<close>), the state of the map it
  created, the bookkeeping of the one \<^verbatim>\<open>async.each\<close> call, the store of meta objects and
  the properties of \<^verbatim>\<open>window\<close> that the source touches. An undefined or null field is
  \<open>None\<close>. Two fields record calls, in order: \<open>popup_calls\<close> the index in
  \<^verbatim>\<open>imageryLayers\<close> of every layer whose \<^verbatim>\<open>openPopup\<close> was called, \<open>callback_log\<close> the
  argument of every run of the final callback of \<^verbatim>\<open>async.each\<close>.
\<close>

record world =
  this_props :: props
  state_error :: "string option"
  imageryLayers :: "tileLayer list"
  basemaps :: "string list"
  mapBounds :: "LatLngBounds option"
  this_map :: "nat option"
  tileJsonRequests :: "jqXHR list option"
  container :: nat
  map_removed :: bool
  map_view :: "LatLngBounds option"
  map_overlays :: "(string \<rightharpoonup> nat) option"
  map_click :: bool
  map_polygons :: "polygon list"
  popup_calls :: "nat list"
  callback_log :: "js_error option list"
  each_length :: nat
  each_completed :: nat
  each_called :: bool
  metas :: "ref \<Rightarrow> meta"
  window_map :: "nat option"
  window_polygonArray :: "(string \<times> polygon) list option"
  window_createPolygon :: bool

text \<open>
  The constructor (lines 37 to 47) with the props \<open>p\<close> the host passes, on a page whose
  \<^verbatim>\<open>window\<close> has none of the three properties yet; \<open>c\<close> is the DOM node the render gives
  the component.
\<close>

definition constructor :: "nat \<Rightarrow> (ref \<Rightarrow> meta) \<Rightarrow> props \<Rightarrow> world" where
  "constructor c heap p =
     \<lparr>this_props = p,
      state_error = Some [], imageryLayers = [], basemaps = [], mapBounds = None,
      this_map = None, tileJsonRequests = None, container = c, map_removed = False,
      map_view = None, map_overlays = None, map_click = False, map_polygons = [],
      popup_calls = [], callback_log = [],
      each_length = 0, each_completed = 0, each_called = False,
      metas = heap, window_map = None, window_polygonArray = None,
      window_createPolygon = False\<rparr>"

text \<open>
  Lines 214 to 218: the overlays object, \<^verbatim>\<open>overlays[meta.name] = layer\<close> for each layer in
  turn (a later layer of the same name replaces the earlier one). A layer is named by its
  index; an undefined name is the key \<^verbatim>\<open>"undefined"\<close>.
\<close>

definition overlay_key :: "(ref \<Rightarrow> meta) \<Rightarrow> tileLayer \<Rightarrow> string" where
  "overlay_key heap l =
     (case meta_name (heap (layer_meta l)) of None \<Rightarrow> ''undefined'' | Some n \<Rightarrow> n)"

fun overlays_from :: "(ref \<Rightarrow> meta) \<Rightarrow> tileLayer list \<Rightarrow> nat \<Rightarrow> (string \<rightharpoonup> nat) \<Rightarrow> (string \<rightharpoonup> nat)" where
  "overlays_from heap [] i acc = acc"
| "overlays_from heap (l # ls) i acc = overlays_from heap ls (Suc i) (acc(overlay_key heap l \<mapsto> i))"

text \<open>
  The final callback of \<^verbatim>\<open>async.each\<close> (lines 208 to 236). With an error it stores
  \<^verbatim>\<open>err.message\<close>; without one it fits the view to \<^verbatim>\<open>this.mapBounds\<close> (the library throws
  when that is still null), adds the layers control and registers the click handler.
\<close>

definition callback :: "js_error option \<Rightarrow> world \<Rightarrow> world result" where
  "callback err w =
     (let w0 = w\<lparr>callback_log := callback_log w @ [err]\<rparr>
      in if is_err err then
           Returned (w0\<lparr>state_error := (case err of None \<Rightarrow> None | Some e \<Rightarrow> message e)\<rparr>)
         else
           (case mapBounds w0 of
              None \<Rightarrow> Threw TypeError w0
            | Some b \<Rightarrow>
                Returned (w0\<lparr>map_view := Some b,
                             map_overlays :=
                               Some (overlays_from (metas w0) (imageryLayers w0) 0 Map.empty),
                             map_click := True\<rparr>)))"

text \<open>
  Modelled from the spec: \<^verbatim>\<open>async.each\<close> is a library that is not part of the sources.
  Its final callback runs once, with the first truthy error an item reports (spec
  section 4.2: the first fetch that fails ends the operation with that single error), or
  with null when every item has reported without one. \<open>done_cb\<close> is the \<^verbatim>\<open>done\<close> handed to
  the iteratee; \<open>each_length\<close>, \<open>each_completed\<close> and \<open>each_called\<close> are the library's
  counters for the one call of line 164.
\<close>

definition once_callback :: "js_error option \<Rightarrow> world \<Rightarrow> world result" where
  "once_callback err w =
     (if each_called w then Returned w else callback err (w\<lparr>each_called := True\<rparr>))"

definition done_cb :: "js_error option \<Rightarrow> world \<Rightarrow> world result" where
  "done_cb err w =
     (if is_err err then once_callback err w
      else (let w' = w\<lparr>each_completed := each_completed w + 1\<rparr>
            in if each_completed w' = each_length w' then once_callback None w'
               else Returned w'))"

text \<open>
  The layer of lines 172 to 195 for a document, its first tile URL \<open>t\<close>, its bounds and
  the tile's meta.
\<close>

definition new_layer :: "tileJson \<Rightarrow> string \<Rightarrow> LatLngBounds \<Rightarrow> ref \<Rightarrow> tileLayer" where
  "new_layer info t b m =
     \<lparr>layer_url = t,
      opt_bounds = b, opt_minZoom = info_minzoom info, opt_maxZoom = info_maxzoom info,
      opt_tms = (info_scheme info = Some ''tms''), opt_opacity = 1, on_map = True,
      popup_title = info_name info, layer_meta = m\<rparr>"

text \<open>
  The request's \<^verbatim>\<open>done\<close> handler (lines 168 to 204) for the tile whose meta is \<open>m\<close>. The
  layer is added to the map as it is created, \<^verbatim>\<open>meta.name\<close> is assigned, the layer is
  pushed and the aggregate bounds are extended, then \<^verbatim>\<open>done()\<close> is called. Two documents
  make the handler throw before line 194, so that nothing is named, pushed or extended
  and \<^verbatim>\<open>done\<close> is never called: one whose \<^verbatim>\<open>tiles\<close> array is empty (\<^verbatim>\<open>info.tiles[0]\<close> is
  undefined and the library throws while adding the layer at lines 172 to 177), and one
  that yields no corner at all (the popup text of line 185 asks an empty bounds for its
  box string). What the library did to the half-built layer before the throw is not
  modelled. The handler never asks whether the load has already failed or the map has
  been removed.
\<close>

definition on_done :: "ref \<Rightarrow> tileJson \<Rightarrow> world \<Rightarrow> world result" where
  "on_done m info w =
     (case info_tiles info of
        [] \<Rightarrow> Threw TypeError w
      | t # ts \<Rightarrow>
          (case layerBounds info of
             EmptyBounds \<Rightarrow> Threw TypeError w
           | Bounds sw ne \<Rightarrow>
               done_cb None
                 (w\<lparr>metas := (metas w)(m := (metas w m)\<lparr>meta_name := Some (info_name info)\<rparr>),
                    imageryLayers := imageryLayers w @ [new_layer info t (Bounds sw ne) m],
                    mapBounds :=
                      Some (extend_bounds
                              (case mapBounds w of None \<Rightarrow> EmptyBounds | Some b \<Rightarrow> b)
                              (Bounds sw ne))\<rparr>)))"

text \<open>How a request ends: with a document, or with the error of its \<^verbatim>\<open>fail\<close> callback.\<close>

datatype jqResult = Success tileJson | Failure js_error

text \<open>The \<open>i\<close>-th request of \<^verbatim>\<open>this.tileJsonRequests\<close> completes (lines 168 and 205).\<close>

definition settle :: "nat \<Rightarrow> jqResult \<Rightarrow> world \<Rightarrow> world result" where
  "settle i r w =
     (case tileJsonRequests w of
        None \<Rightarrow> Returned w
      | Some rs \<Rightarrow>
          (if i < length rs then
             (case r of
                Success info \<Rightarrow> on_done (req_meta (rs ! i)) info w
              | Failure err \<Rightarrow> done_cb (Some err) w)
           else Returned w))"

text \<open>
  \<^verbatim>\<open>componentDidMount\<close> (lines 49 to 237), reading \<^verbatim>\<open>showBackground\<close> and \<^verbatim>\<open>tiles\<close> from
  \<^verbatim>\<open>this.props\<close>: the map is created and published as
  \<^verbatim>\<open>window.map\<close>, the basemaps are set when asked for, \<^verbatim>\<open>window.polygonArray\<close> and
  \<^verbatim>\<open>window.createPolygon\<close> are installed, the view is fitted to the world and one request
  per tile is issued. With no tile at all the final callback runs at once.
\<close>

definition componentDidMount :: "world \<Rightarrow> world result" where
  "componentDidMount w =
     (let p = this_props w;
          w1 = w\<lparr>this_map := Some (container w),
                 window_map := Some (container w),
                 basemaps := (if showBackground p
                              then [''Google Maps Hybrid'', ''ESRI Satellite'', ''OSM Mapnik'']
                              else basemaps w),
                 window_polygonArray := Some [],
                 window_createPolygon := True,
                 map_view := None,
                 tileJsonRequests :=
                   Some (map (\<lambda>t. \<lparr>req_url = url t, req_meta = tile_meta t\<rparr>) (tiles p)),
                 each_length := length (tiles p),
                 each_completed := 0,
                 each_called := False\<rparr>
      in if tiles p = [] then once_callback None w1 else Returned w1)"

text \<open>
  \<^verbatim>\<open>window.createPolygon\<close> (lines 108 to 128): the polygon is pushed onto the global
  \<^verbatim>\<open>polygonArray\<close> and added to \<^verbatim>\<open>window.map\<close>. Before \<^verbatim>\<open>componentDidMount\<close> has run the
  function does not exist and the call throws.
\<close>

definition createPolygon :: "LatLng list \<Rightarrow> string \<Rightarrow> string \<Rightarrow> world \<Rightarrow> world result" where
  "createPolygon polygonPoints col name w =
     (if \<not> window_createPolygon w then Threw TypeError w
      else
        (case window_polygonArray w of
           None \<Rightarrow> Threw TypeError w
         | Some arr \<Rightarrow>
             (let pg = \<lparr>points = polygonPoints, color = col\<rparr>;
                  w1 = w\<lparr>window_polygonArray := Some (arr @ [(name, pg)])\<rparr>
              in if window_map w1 \<noteq> None \<and> window_map w1 = this_map w1
                 then Returned (w1\<lparr>map_polygons := map_polygons w1 @ [pg]\<rparr>)
                 else Threw TypeError w1)))"

text \<open>\<^verbatim>\<open>componentDidUpdate\<close> (lines 239 to 243), reading \<^verbatim>\<open>this.props.opacity\<close>.\<close>

definition componentDidUpdate :: "world \<Rightarrow> world" where
  "componentDidUpdate w =
     w\<lparr>imageryLayers :=
         map (\<lambda>imageryLayer. imageryLayer\<lparr>opt_opacity := opacity (this_props w) / 100\<rparr>)
           (imageryLayers w)\<rparr>"

text \<open>
  The host changes the opacity setting to \<open>v\<close>: the framework replaces the \<^verbatim>\<open>opacity\<close> of
  \<^verbatim>\<open>this.props\<close> (every other prop stays) and then runs \<^verbatim>\<open>componentDidUpdate\<close>.
\<close>

definition applyOpacity :: "real \<Rightarrow> world \<Rightarrow> world" where
  "applyOpacity v w = componentDidUpdate (w\<lparr>this_props := (this_props w)\<lparr>opacity := v\<rparr>\<rparr>)"

text \<open>
  \<^verbatim>\<open>componentWillUnmount\<close> (lines 245 to 252). \<^verbatim>\<open>this.map.remove()\<close> at line 246 throws when
  there is no map yet or when the map has been removed before (the library then
  dereferences what the first removal deleted); otherwise it takes every layer off the
  map (spec section 4.4). The loop then calls \<^verbatim>\<open>this.tileJsonRequest.abort()\<close> for each
  request: the component has no field \<^verbatim>\<open>tileJsonRequest\<close>, so with at least one request the
  first iteration throws a TypeError, before any request is aborted and before the list
  is reset.
\<close>

definition componentWillUnmount :: "world \<Rightarrow> world result" where
  "componentWillUnmount w =
     (case this_map w of
        None \<Rightarrow> Threw TypeError w
      | Some m \<Rightarrow>
          (if map_removed w then Threw TypeError w
           else
             (let w1 = w\<lparr>map_removed := True,
                         imageryLayers := map (\<lambda>l. l\<lparr>on_map := False\<rparr>) (imageryLayers w)\<rparr>
              in case tileJsonRequests w1 of
                   None \<Rightarrow> Returned w1
                 | Some [] \<Rightarrow> Returned (w1\<lparr>tileJsonRequests := Some []\<rparr>)
                 | Some (r # rs) \<Rightarrow> Threw TypeError w1)))"

text \<open>
  The click handler (lines 226 to 234): the loop over \<^verbatim>\<open>this.imageryLayers\<close> stops at the
  first layer that is on the map and whose bounds contain the point; \<open>i\<close> counts the
  layers passed. The bounds of a layer that is not on the map are never asked.
\<close>

fun hitTest :: "tileLayer list \<Rightarrow> LatLng \<Rightarrow> nat \<Rightarrow> js_exn + nat option" where
  "hitTest [] p i = Inr None"
| "hitTest (layer # ls) p i =
     (if on_map layer then
        (case contains (opt_bounds layer) p of
           None \<Rightarrow> Inl TypeError
         | Some True \<Rightarrow> Inr (Some i)
         | Some False \<Rightarrow> hitTest ls p (Suc i))
      else hitTest ls p (Suc i))"

definition openPopup :: "nat \<Rightarrow> world \<Rightarrow> world" where
  "openPopup i w = w\<lparr>popup_calls := popup_calls w @ [i]\<rparr>"

text \<open>A click on the map: nothing listens before line 226 has run or after the map is removed.\<close>

definition click :: "LatLng \<Rightarrow> world \<Rightarrow> world result" where
  "click p w =
     (if map_click w \<and> \<not> map_removed w then
        (case hitTest (imageryLayers w) p 0 of
           Inl e \<Rightarrow> Threw e w
         | Inr None \<Rightarrow> Returned w
         | Inr (Some i) \<Rightarrow> Returned (openPopup i w))
      else Returned w)"

text \<open>
  Modelled from the spec: the layers control (a vendored plugin that is not part of the
  sources) lets the user toggle an overlay; switching a layer off takes it from the map,
  switching it on adds it again.
\<close>

definition toggleOverlay :: "nat \<Rightarrow> world \<Rightarrow> world" where
  "toggleOverlay i w =
     (if map_overlays w \<noteq> None \<and> i < length (imageryLayers w)
      then w\<lparr>imageryLayers :=
               (imageryLayers w)[i := (imageryLayers w ! i)\<lparr>on_map := \<not> on_map (imageryLayers w ! i)\<rparr>]\<rparr>
      else w)"

section \<open>Runs\<close>

text \<open>
  What can happen to a mounted component, one event at a time on the single event loop;
  an exception a handler throws is lost to the loop, the world stays as the handler left
  it.
\<close>

datatype event =
    Settle nat jqResult
  | Click LatLng
  | Update real
  | Unmount
  | Toggle nat
  | CreatePolygon "LatLng list" string string

fun step :: "world \<Rightarrow> event \<Rightarrow> world" where
  "step w (Settle i r) = world_of (settle i r w)"
| "step w (Click p) = world_of (click p w)"
| "step w (Update op) = applyOpacity op w"
| "step w Unmount = world_of (componentWillUnmount w)"
| "step w (Toggle i) = toggleOverlay i w"
| "step w (CreatePolygon ps c n) = world_of (createPolygon ps c n w)"

definition run :: "world \<Rightarrow> event list \<Rightarrow> world" where
  "run w es = foldl step w es"

text \<open>A schedule: the requests in the order they complete, each with its outcome.\<close>

definition completions :: "(nat \<times> jqResult) list \<Rightarrow> event list" where
  "completions sched = map (\<lambda>(i, r). Settle i r) sched"

text \<open>Mounting a fresh component on node \<open>c\<close> with store \<open>heap\<close>.\<close>

definition mount :: "nat \<Rightarrow> (ref \<Rightarrow> meta) \<Rightarrow> props \<Rightarrow> world" where
  "mount c heap p = world_of (componentDidMount (constructor c heap p))"

definition load :: "nat \<Rightarrow> (ref \<Rightarrow> meta) \<Rightarrow> props \<Rightarrow> (nat \<times> jqResult) list \<Rightarrow> world" where
  "load c heap p sched = run (mount c heap p) (completions sched)"

section \<open>Vocabulary of the properties\<close>

text \<open>The union of a list of bounds, starting from the empty bounds.\<close>

definition union_all :: "LatLngBounds list \<Rightarrow> LatLngBounds" where
  "union_all bs = foldl extend_bounds EmptyBounds bs"

text \<open>
  The aggregate bounds as line 199 reads them, \<^verbatim>\<open>this.mapBounds || Leaflet.latLngBounds()\<close>:
  a null field counts as the empty bounds.
\<close>

definition agg :: "world \<Rightarrow> LatLngBounds" where
  "agg w = (case mapBounds w of None \<Rightarrow> EmptyBounds | Some b \<Rightarrow> b)"


text \<open>
  A valid document, as far as the handler depends on it (spec section 6): four bounds
  numbers and at least one tile URL.
\<close>

definition valid_document :: "tileJson \<Rightarrow> bool" where
  "valid_document info = (length (info_bounds info) = 4 \<and> info_tiles info \<noteq> [])"

text \<open>A request failed, as \<^verbatim>\<open>async.each\<close> sees it: its handler reported a truthy error.\<close>

fun failed :: "jqResult \<Rightarrow> bool" where
  "failed (Success info) = False"
| "failed (Failure e) = truthy e"


text \<open>The test of line 229 for one layer: it is on the map and its bounds contain the point.\<close>

definition hit :: "tileLayer \<Rightarrow> LatLng \<Rightarrow> bool" where
  "hit layer p = (on_map layer \<and> contains (opt_bounds layer) p = Some True)"

text \<open>The \<^verbatim>\<open>openPopup\<close> calls one click makes: what it appends to the record of calls.\<close>

definition click_calls :: "LatLng \<Rightarrow> world \<Rightarrow> nat list" where
  "click_calls p w = drop (length (popup_calls w)) (popup_calls (world_of (click p w)))"

text \<open>
  The spec's \<^verbatim>\<open>layersAt(point)\<close>, in the spec's words: the layers whose bounds contain the
  point, in registry order, each with its index in the registry.
\<close>

definition layersAt :: "tileLayer list \<Rightarrow> LatLng \<Rightarrow> (nat \<times> tileLayer) list" where
  "layersAt ls p = filter (\<lambda>(j, l). contains (opt_bounds l) p = Some True) (enumerate 0 ls)"

text \<open>The same, restricted to the layers that are on the map.\<close>

definition attachedLayersAt :: "tileLayer list \<Rightarrow> LatLng \<Rightarrow> (nat \<times> tileLayer) list" where
  "attachedLayersAt ls p = filter (\<lambda>(j, l). hit l p) (enumerate 0 ls)"

section \<open>The scenarios of the spec\<close>

definition doc_A :: tileJson where
  "doc_A = \<lparr>info_name = ''A'', info_bounds = [-9.2, 38.6, -9.1, 38.7],
            info_tiles = [''a/{z}/{x}/{y}.png''], info_minzoom = 0, info_maxzoom = 18,
            info_scheme = Some ''tms''\<rparr>"

definition doc_B :: tileJson where
  "doc_B = \<lparr>info_name = ''B'', info_bounds = [-9.3, 38.5, -9.2, 38.6],
            info_tiles = [''b/{z}/{x}/{y}.png''], info_minzoom = 0, info_maxzoom = 18,
            info_scheme = Some ''tms''\<rparr>"

definition heap_AB :: "ref \<Rightarrow> meta" where
  "heap_AB = (\<lambda>r. \<lparr>project = 1, task = int r, meta_name = None\<rparr>)"

definition props_AB :: props where
  "props_AB = \<lparr>showBackground = False,
               tiles = [\<lparr>url = ''A'', tile_meta = 0\<rparr>, \<lparr>url = ''B'', tile_meta = 1\<rparr>],
               opacity = 100\<rparr>"

definition bounds_A :: LatLngBounds where
  "bounds_A = Bounds \<lparr>lat = 38.6, lng = -9.2\<rparr> \<lparr>lat = 38.7, lng = -9.1\<rparr>"

definition bounds_B :: LatLngBounds where
  "bounds_B = Bounds \<lparr>lat = 38.5, lng = -9.3\<rparr> \<lparr>lat = 38.6, lng = -9.2\<rparr>"

text \<open>The layers the two documents produce, field by field, as long as nothing touches them.\<close>

definition layer_A :: tileLayer where
  "layer_A = \<lparr>layer_url = ''a/{z}/{x}/{y}.png'', opt_bounds = bounds_A, opt_minZoom = 0,
              opt_maxZoom = 18, opt_tms = True, opt_opacity = 1, on_map = True,
              popup_title = ''A'', layer_meta = 0\<rparr>"

definition layer_B :: tileLayer where
  "layer_B = \<lparr>layer_url = ''b/{z}/{x}/{y}.png'', opt_bounds = bounds_B, opt_minZoom = 0,
              opt_maxZoom = 18, opt_tms = True, opt_opacity = 1, on_map = True,
              popup_title = ''B'', layer_meta = 1\<rparr>"

text \<open>The spec's failure scenario: A succeeds, then B answers HTTP 500.\<close>

definition sched_A_then_B_500 :: "(nat \<times> jqResult) list" where
  "sched_A_then_B_500 = [(0, Success doc_A), (1, Failure (StatusText ''Internal Server Error''))]"

text \<open>B's response cannot be parsed and its failure arrives first; A succeeds afterwards.\<close>

definition sched_B_fails_then_A :: "(nat \<times> jqResult) list" where
  "sched_B_fails_then_A = [(1, Failure (ErrorObject ''Unexpected token'')), (0, Success doc_A)]"

text \<open>Both documents loaded, A first: the component is ready and listens to clicks.\<close>

definition ready_AB :: world where
  "ready_AB = load 7 heap_AB props_AB [(0, Success doc_A), (1, Success doc_B)]"

text \<open>The user then switches the overlay of A off in the layers control.\<close>

definition A_switched_off :: world where
  "A_switched_off = step ready_AB (Toggle 0)"

text \<open>The corner the two extents share: the bounds of A and of B both contain it.\<close>

definition shared_corner :: LatLng where
  "shared_corner = \<lparr>lat = 38.6, lng = -9.2\<rparr>"

section \<open>Properties of the bounds\<close>

lemmas model_defs =
  constructor_def componentDidMount_def mount_def load_def run_def completions_def
  settle_def on_done_def done_cb_def once_callback_def callback_def new_layer_def
  layerBounds_def corners_def slice_def latLngBounds_def componentDidUpdate_def
  componentWillUnmount_def click_def openPopup_def toggleOverlay_def createPolygon_def
  applyOpacity_def
  overlay_key_def

lemmas scenario_defs = doc_A_def doc_B_def heap_AB_def props_AB_def bounds_A_def bounds_B_def
  sched_A_then_B_500_def sched_B_fails_then_A_def ready_AB_def shared_corner_def A_switched_off_def
  layer_A_def layer_B_def

lemma extend_commute: "extend_bounds a b = extend_bounds b a"
  by (cases a; cases b) (simp_all add: min.commute max.commute)

lemma extend_assoc: "extend_bounds a (extend_bounds b c) = extend_bounds (extend_bounds a b) c"
  by (cases a; cases b; cases c) (simp_all add: min.assoc max.assoc min.commute max.commute
      min.left_commute max.left_commute)

lemma extend_empty_left: "extend_bounds EmptyBounds a = a"
  by (cases a) simp_all

text \<open>
  Claim C6. The union of bounds, \<open>extend_bounds\<close> (the library's \<^verbatim>\<open>extend\<close>), is commutative and associative, and the empty
  bounds is its identity.
\<close>

theorem bounds_union_algebra:
  "extend_bounds a b = extend_bounds b a \<and>
   extend_bounds a (extend_bounds b c) = extend_bounds (extend_bounds a b) c \<and>
   extend_bounds EmptyBounds a = a"
  using extend_commute extend_assoc extend_empty_left by blast

lemma layerBounds_four:
  "info_bounds info = [west, south, east, north] \<Longrightarrow>
   layerBounds info =
     Bounds \<lparr>lat = min north south, lng = min east west\<rparr>
            \<lparr>lat = max north south, lng = max east west\<rparr>"
  by (simp add: layerBounds_def corners_def slice_def latLngBounds_def)

text \<open>
  Claim C3, as amended. For a document whose bounds are \<open>[west, south, east, north]\<close> the
  component hands the corners \<open>[south, west]\<close> and \<open>[north, east]\<close> to the library (the
  axis swap); the resulting bounds have the minima as south-west corner and the maxima
  as north-east corner, which is exactly \<open>(south, west)\<close> and \<open>(north, east)\<close> when
  \<open>south \<le> north\<close> and \<open>west \<le> east\<close>.
\<close>

theorem axis_swap_normalised:
  assumes "info_bounds info = [west, south, east, north]"
  shows "corners info = [[south, west], [north, east]] \<and>
         layerBounds info =
           Bounds \<lparr>lat = min north south, lng = min east west\<rparr>
                  \<lparr>lat = max north south, lng = max east west\<rparr> \<and>
         (south \<le> north \<and> west \<le> east \<longrightarrow>
            layerBounds info = Bounds \<lparr>lat = south, lng = west\<rparr> \<lparr>lat = north, lng = east\<rparr>)"
  using assms layerBounds_four [OF assms]
  by (simp add: corners_def slice_def min_def max_def)

theorem axis_swap_normalised_witness:
  "info_bounds doc_A = [-9.2, 38.6, -9.1, 38.7] \<and>
   corners doc_A = [[38.6, -9.2], [38.7, -9.1]] \<and>
   layerBounds doc_A = Bounds \<lparr>lat = 38.6, lng = -9.2\<rparr> \<lparr>lat = 38.7, lng = -9.1\<rparr>"
proof -
  have b: "info_bounds doc_A = [-9.2, 38.6, -9.1, 38.7]"
    by (simp add: doc_A_def)
  show ?thesis
    using b axis_swap_normalised [OF b] by simp
qed

theorem axis_swap_counterexample:
  "layerBounds wrapped_document \<noteq> Bounds \<lparr>lat = 0, lng = 10\<rparr> \<lparr>lat = 5, lng = -10\<rparr>"
  by (simp add: wrapped_document_def layerBounds_def corners_def slice_def latLngBounds_def)

section \<open>Frame lemmas for the handlers\<close>

lemma callback_frame:
  "imageryLayers (world_of (callback err w)) = imageryLayers w"
  "mapBounds (world_of (callback err w)) = mapBounds w"
  "metas (world_of (callback err w)) = metas w"
  "tileJsonRequests (world_of (callback err w)) = tileJsonRequests w"
  "each_length (world_of (callback err w)) = each_length w"
  "each_completed (world_of (callback err w)) = each_completed w"
  "each_called (world_of (callback err w)) = each_called w"
  "popup_calls (world_of (callback err w)) = popup_calls w"
  "window_map (world_of (callback err w)) = window_map w"
  "window_polygonArray (world_of (callback err w)) = window_polygonArray w"
  "window_createPolygon (world_of (callback err w)) = window_createPolygon w"
  "this_props (world_of (callback err w)) = this_props w"
  by (simp_all add: callback_def Let_def split: option.splits)

lemma once_callback_frame:
  "imageryLayers (world_of (once_callback err w)) = imageryLayers w"
  "mapBounds (world_of (once_callback err w)) = mapBounds w"
  "metas (world_of (once_callback err w)) = metas w"
  "tileJsonRequests (world_of (once_callback err w)) = tileJsonRequests w"
  "each_length (world_of (once_callback err w)) = each_length w"
  "each_completed (world_of (once_callback err w)) = each_completed w"
  "popup_calls (world_of (once_callback err w)) = popup_calls w"
  "window_map (world_of (once_callback err w)) = window_map w"
  "window_polygonArray (world_of (once_callback err w)) = window_polygonArray w"
  "window_createPolygon (world_of (once_callback err w)) = window_createPolygon w"
  "this_props (world_of (once_callback err w)) = this_props w"
  by (simp_all add: once_callback_def callback_frame)

lemma done_cb_frame:
  "imageryLayers (world_of (done_cb err w)) = imageryLayers w"
  "mapBounds (world_of (done_cb err w)) = mapBounds w"
  "metas (world_of (done_cb err w)) = metas w"
  "tileJsonRequests (world_of (done_cb err w)) = tileJsonRequests w"
  "each_length (world_of (done_cb err w)) = each_length w"
  "popup_calls (world_of (done_cb err w)) = popup_calls w"
  "window_map (world_of (done_cb err w)) = window_map w"
  "window_polygonArray (world_of (done_cb err w)) = window_polygonArray w"
  "window_createPolygon (world_of (done_cb err w)) = window_createPolygon w"
  "this_props (world_of (done_cb err w)) = this_props w"
  by (simp_all add: done_cb_def once_callback_frame Let_def)

lemma four_bounds_nonempty:
  assumes "length (info_bounds info) = 4"
  shows "\<exists>sw ne. layerBounds info = Bounds sw ne"
proof -
  from assms obtain a b c d where "info_bounds info = [a, b, c, d]"
    by (auto simp: length_Suc_conv numeral_eq_Suc)
  then show ?thesis using layerBounds_four by blast
qed

lemma valid_document_shape:
  assumes "valid_document info"
  shows "\<exists>t ts sw ne. info_tiles info = t # ts \<and> layerBounds info = Bounds sw ne"
proof -
  from assms have "length (info_bounds info) = 4" "info_tiles info \<noteq> []"
    by (simp_all add: valid_document_def)
  then show ?thesis
    using four_bounds_nonempty [of info] by (cases "info_tiles info") auto
qed

lemma on_done_valid:
  assumes "valid_document info"
  shows "imageryLayers (world_of (on_done m info w)) =
           imageryLayers w @ [new_layer info (hd (info_tiles info)) (layerBounds info) m]"
    and "mapBounds (world_of (on_done m info w)) = Some (extend_bounds (agg w) (layerBounds info))"
    and "metas (world_of (on_done m info w)) = (metas w)(m := (metas w m)\<lparr>meta_name := Some (info_name info)\<rparr>)"
    and "tileJsonRequests (world_of (on_done m info w)) = tileJsonRequests w"
    and "each_length (world_of (on_done m info w)) = each_length w"
    and "this_props (world_of (on_done m info w)) = this_props w"
  using valid_document_shape [OF assms]
  by (auto simp: on_done_def done_cb_frame agg_def)

lemma settle_success:
  assumes "tileJsonRequests w = Some rs" "i < length rs" "valid_document info"
  shows "imageryLayers (step w (Settle i (Success info))) =
           imageryLayers w @ [new_layer info (hd (info_tiles info)) (layerBounds info) (req_meta (rs ! i))]"
    and "mapBounds (step w (Settle i (Success info))) = Some (extend_bounds (agg w) (layerBounds info))"
    and "tileJsonRequests (step w (Settle i (Success info))) = Some rs"
    and "each_length (step w (Settle i (Success info))) = each_length w"
  using assms by (simp_all add: settle_def on_done_valid)


lemma run_Nil: "run w [] = w"
  by (simp add: run_def)

lemma run_Cons: "run w (e # es) = run (step w e) es"
  by (simp add: run_def)


lemma agg_run_successes:
  assumes "tileJsonRequests w = Some rs"
      and "\<forall>i \<in> set order. i < length rs \<and> valid_document (docs i)"
  shows "agg (run w (completions (map (\<lambda>i. (i, Success (docs i))) order))) =
           foldl extend_bounds (agg w) (map (\<lambda>i. layerBounds (docs i)) order)
         \<and> (order \<noteq> [] \<longrightarrow> mapBounds (run w (completions (map (\<lambda>i. (i, Success (docs i))) order))) \<noteq> None)
         \<and> (order = [] \<longrightarrow> run w (completions (map (\<lambda>i. (i, Success (docs i))) order)) = w)"
  using assms
proof (induction order arbitrary: w)
  case Nil
  then show ?case by (simp add: completions_def run_Nil)
next
  case (Cons i order)
  let ?next = "step w (Settle i (Success (docs i)))"
  have i: "i < length rs" "valid_document (docs i)" using Cons.prems by simp_all
  have r1: "tileJsonRequests ?next = Some rs"
    using settle_success(3) [OF Cons.prems(1) i] .
  have a1: "agg ?next = extend_bounds (agg w) (layerBounds (docs i))"
    using settle_success(2) [OF Cons.prems(1) i] by (simp add: agg_def)
  have m1: "mapBounds ?next \<noteq> None"
    using settle_success(2) [OF Cons.prems(1) i] by simp
  have rest: "\<forall>j \<in> set order. j < length rs \<and> valid_document (docs j)"
    using Cons.prems by simp
  note ih = Cons.IH [OF r1 rest]
  have unfold: "run w (completions (map (\<lambda>i. (i, Success (docs i))) (i # order))) =
                run ?next (completions (map (\<lambda>i. (i, Success (docs i))) order))"
    by (simp add: completions_def run_Cons)
  show ?case
  proof (cases "order = []")
    case True
    then show ?thesis using a1 m1 by (simp add: completions_def run_Cons run_Nil)
  next
    case False
    then show ?thesis using ih a1 unfold by simp
  qed
qed

lemma extend_right_commute:
  "extend_bounds (extend_bounds b x) y = extend_bounds (extend_bounds b y) x"
  by (metis extend_assoc extend_commute)

lemma foldl_extend_perm:
  assumes "mset xs = mset ys"
  shows "foldl extend_bounds b xs = foldl extend_bounds b ys"
proof -
  have "fold (\<lambda>x a. extend_bounds a x) xs = fold (\<lambda>x a. extend_bounds a x) ys"
    by (rule fold_multiset_equiv [OF _ assms]) (simp add: fun_eq_iff extend_right_commute)
  then show ?thesis by (simp add: foldl_conv_fold)
qed

lemma mount_requests:
  "tileJsonRequests (mount c heap p) =
     Some (map (\<lambda>t. \<lparr>req_url = url t, req_meta = tile_meta t\<rparr>) (tiles p))"
  by (simp add: mount_def componentDidMount_def Let_def once_callback_frame constructor_def)

lemma mount_mapBounds: "mapBounds (mount c heap p) = None"
  by (simp add: mount_def componentDidMount_def Let_def once_callback_frame constructor_def)

text \<open>
  Claim C4. When every document is valid (four bounds numbers and at least one tile URL)
  and every request succeeds, the aggregate bounds are the union of the layers' own bounds, taken in
  descriptor order, whatever the order \<open>order\<close> in which the requests complete (with no
  descriptor at all the field stays null, which line 199 reads as the empty bounds, the
  union of no bounds). For the two documents of the spec's scenario
  the aggregate is south-west \<open>(38.5, -9.3)\<close>, north-east \<open>(38.7, -9.1)\<close> in both
  completion orders.
\<close>

theorem aggregate_bounds_order_independent:
  assumes valid: "\<forall>i < length (tiles p). valid_document (docs i)"
      and order: "mset order = mset [0..<length (tiles p)]"
  shows "mapBounds (load c heap p (map (\<lambda>i. (i, Success (docs i))) order)) =
           (if tiles p = [] then None
            else Some (union_all (map (\<lambda>i. layerBounds (docs i)) [0..<length (tiles p)]))) \<and>
         agg (load c heap p (map (\<lambda>i. (i, Success (docs i))) order)) =
           union_all (map (\<lambda>i. layerBounds (docs i)) [0..<length (tiles p)]) \<and>
         mapBounds (load c heap props_AB [(0, Success doc_A), (1, Success doc_B)]) =
           Some (Bounds \<lparr>lat = 38.5, lng = -9.3\<rparr> \<lparr>lat = 38.7, lng = -9.1\<rparr>) \<and>
         mapBounds (load c heap props_AB [(1, Success doc_B), (0, Success doc_A)]) =
           Some (Bounds \<lparr>lat = 38.5, lng = -9.3\<rparr> \<lparr>lat = 38.7, lng = -9.1\<rparr>)"
proof -
  let ?init = "mount c heap p"
  let ?rs = "map (\<lambda>t. \<lparr>req_url = url t, req_meta = tile_meta t\<rparr>) (tiles p)"
  let ?w = "run ?init (completions (map (\<lambda>i. (i, Success (docs i))) order))"
  have set_order: "set order = {0..<length (tiles p)}"
    using order by (metis mset_eq_setD set_upt)
  have hyp: "\<forall>i \<in> set order. i < length ?rs \<and> valid_document (docs i)"
    using valid set_order by simp
  note run = agg_run_successes [OF mount_requests hyp]
  have agg0: "agg ?init = EmptyBounds" by (simp add: agg_def mount_mapBounds)
  have perm: "mset (map (\<lambda>i. layerBounds (docs i)) order) =
              mset (map (\<lambda>i. layerBounds (docs i)) [0..<length (tiles p)])"
    using order by (metis mset_map)
  have agg_eq: "agg ?w = union_all (map (\<lambda>i. layerBounds (docs i)) [0..<length (tiles p)])"
    using run agg0 foldl_extend_perm [OF perm] by (simp add: union_all_def)
  have general: "mapBounds (load c heap p (map (\<lambda>i. (i, Success (docs i))) order)) =
           (if tiles p = [] then None
            else Some (union_all (map (\<lambda>i. layerBounds (docs i)) [0..<length (tiles p)])))"
  proof (cases "tiles p = []")
    case True
    then have "order = []" using set_order by simp
    then have "?w = ?init" using run by simp
    then show ?thesis using True by (simp add: load_def mount_mapBounds)
  next
    case False
    then have "order \<noteq> []" using set_order by auto
    then have "mapBounds ?w \<noteq> None" using run by simp
    then show ?thesis using agg_eq False by (auto simp: load_def agg_def)
  qed
  have ab: "mapBounds (load c heap props_AB [(0, Success doc_A), (1, Success doc_B)]) =
           Some (Bounds \<lparr>lat = 38.5, lng = -9.3\<rparr> \<lparr>lat = 38.7, lng = -9.1\<rparr>)"
    by (simp add: model_defs scenario_defs Let_def)
  have ba: "mapBounds (load c heap props_AB [(1, Success doc_B), (0, Success doc_A)]) =
           Some (Bounds \<lparr>lat = 38.5, lng = -9.3\<rparr> \<lparr>lat = 38.7, lng = -9.1\<rparr>)"
    by (simp add: model_defs scenario_defs Let_def)
  have agg_load: "agg (load c heap p (map (\<lambda>i. (i, Success (docs i))) order)) =
           union_all (map (\<lambda>i. layerBounds (docs i)) [0..<length (tiles p)])"
    using agg_eq by (simp add: load_def)
  show ?thesis using general agg_load ab ba by blast
qed

theorem aggregate_bounds_order_independent_witness:
  "mset [1, 0] = mset [0..<length (tiles props_AB)] \<and>
   mapBounds (load 7 heap_AB props_AB [(1, Success doc_B), (0, Success doc_A)]) =
     Some (union_all [layerBounds doc_A, layerBounds doc_B]) \<and>
   union_all [layerBounds doc_A, layerBounds doc_B] =
     Bounds \<lparr>lat = 38.5, lng = -9.3\<rparr> \<lparr>lat = 38.7, lng = -9.1\<rparr>"
proof -
  have valid: "\<forall>i < length (tiles props_AB). valid_document (if i = 0 then doc_A else doc_B)"
    by (simp add: valid_document_def doc_A_def doc_B_def)
  have order: "mset [1, 0] = mset [0..<length (tiles props_AB)]"
    by (simp add: props_AB_def upt_rec)
  have u: "union_all [layerBounds doc_A, layerBounds doc_B] =
     Bounds \<lparr>lat = 38.5, lng = -9.3\<rparr> \<lparr>lat = 38.7, lng = -9.1\<rparr>"
    by (simp add: union_all_def scenario_defs layerBounds_def corners_def slice_def latLngBounds_def)
  show ?thesis
    using aggregate_bounds_order_independent [OF valid order, of 7 heap_AB] order u
    by (simp add: props_AB_def upt_rec)
qed

section \<open>The final callback runs once\<close>

















section \<open>The click handler\<close>

lemma hitTest_none:
  assumes "\<forall>l \<in> set ls. on_map l \<longrightarrow> opt_bounds l \<noteq> EmptyBounds"
      and "\<forall>l \<in> set ls. \<not> hit l p"
  shows "hitTest ls p i = Inr None"
  using assms
proof (induction ls arbitrary: i)
  case Nil
  then show ?case by simp
next
  case (Cons l ls)
  then show ?case
    by (cases "opt_bounds l") (auto simp: hit_def)
qed

lemma hitTest_first:
  assumes "\<forall>l \<in> set ls. on_map l \<longrightarrow> opt_bounds l \<noteq> EmptyBounds"
      and "j < length ls" "hit (ls ! j) p" "\<forall>k < j. \<not> hit (ls ! k) p"
  shows "hitTest ls p i = Inr (Some (i + j))"
  using assms
proof (induction ls arbitrary: i j)
  case Nil
  then show ?case by simp
next
  case (Cons l ls)
  show ?case
  proof (cases j)
    case 0
    then show ?thesis using Cons.prems(3) by (simp add: hit_def)
  next
    case (Suc j')
    have nh: "\<not> hit l p" using Cons.prems(4) Suc by auto
    have rest: "\<forall>l \<in> set ls. on_map l \<longrightarrow> opt_bounds l \<noteq> EmptyBounds"
      using Cons.prems(1) by simp
    have j': "j' < length ls" "hit (ls ! j') p" "\<forall>k < j'. \<not> hit (ls ! k) p"
      using Cons.prems(2,3,4) Suc by auto
    have ih: "hitTest ls p (Suc i) = Inr (Some (Suc i + j'))"
      using Cons.IH [OF rest j'] .
    have step: "hitTest (l # ls) p i = hitTest ls p (Suc i)"
      using nh Cons.prems(1) by (cases "opt_bounds l") (auto simp: hit_def)
    show ?thesis using ih step Suc by simp
  qed
qed

lemma hitTest_Some:
  assumes "hitTest ls p i = Inr (Some n)"
  shows "i \<le> n \<and> n - i < length ls \<and> hit (ls ! (n - i)) p"
  using assms
proof (induction ls arbitrary: i)
  case Nil
  then show ?case by simp
next
  case (Cons l ls)
  show ?case
  proof (cases "hit l p")
    case True
    then have "n = i" using Cons.prems by (simp add: hit_def)
    then show ?thesis using True by simp
  next
    case False
    then have "hitTest ls p (Suc i) = Inr (Some n)"
      using Cons.prems by (auto simp: hit_def split: if_splits option.splits bool.splits)
    then have "Suc i \<le> n \<and> n - Suc i < length ls \<and> hit (ls ! (n - Suc i)) p"
      using Cons.IH by blast
    then show ?thesis by (auto simp: Suc_diff_Suc less_eq_Suc_le)
  qed
qed

lemma hitTest_find:
  assumes "\<forall>l \<in> set ls. on_map l \<longrightarrow> opt_bounds l \<noteq> EmptyBounds"
  shows "hitTest ls p i = Inr (map_option fst (find (\<lambda>(j, l). hit l p) (enumerate i ls)))"
  using assms
proof (induction ls arbitrary: i)
  case Nil
  then show ?case by simp
next
  case (Cons l ls)
  then show ?case
    by (cases "opt_bounds l") (auto simp: hit_def)
qed

lemma find_take_filter: "map f (take 1 (filter P xs)) = (case find P xs of None \<Rightarrow> [] | Some x \<Rightarrow> [f x])"
  by (induction xs) simp_all


lemma click_listening:
  assumes "map_click w" "\<not> map_removed w"
  shows "click p w =
           (case hitTest (imageryLayers w) p 0 of
              Inl e \<Rightarrow> Threw e w
            | Inr None \<Rightarrow> Returned w
            | Inr (Some i) \<Rightarrow> Returned (openPopup i w))"
  using assms by (simp add: click_def)

lemma ready_AB_layers:
  "imageryLayers ready_AB = [layer_A, layer_B]"
  by (simp add: model_defs scenario_defs Let_def)

lemma ready_AB_listening: "map_click ready_AB" "\<not> map_removed ready_AB" "map_overlays ready_AB \<noteq> None"
  by (simp_all add: model_defs scenario_defs Let_def)

lemma A_switched_off_layers:
  "imageryLayers A_switched_off =
     [layer_A\<lparr>on_map := False\<rparr>, layer_B]"
  using ready_AB_listening(3)
  by (simp add: A_switched_off_def toggleOverlay_def ready_AB_layers layer_A_def layer_B_def)

lemma A_switched_off_listening:
  "map_click A_switched_off" "\<not> map_removed A_switched_off"
  using ready_AB_listening by (simp_all add: A_switched_off_def toggleOverlay_def)

text \<open>
  Claim C5, as amended. While the component listens to clicks, a click makes at most one
  \<^verbatim>\<open>openPopup\<close> call, on the first layer in registry order among those that are on the
  map and whose bounds contain the point; when every layer is on the map this is the
  first element of \<^verbatim>\<open>layersAt(point)\<close>.
\<close>

theorem click_opens_first_attached_layer:
  assumes listening: "map_click w" "\<not> map_removed w"
      and bounded: "\<forall>l \<in> set (imageryLayers w). on_map l \<longrightarrow> opt_bounds l \<noteq> EmptyBounds"
  shows "popup_calls (world_of (click p w)) =
           popup_calls w @ map fst (take 1 (attachedLayersAt (imageryLayers w) p)) \<and>
         ((\<forall>l \<in> set (imageryLayers w). on_map l) \<longrightarrow>
            popup_calls (world_of (click p w)) =
              popup_calls w @ map fst (take 1 (layersAt (imageryLayers w) p)))"
proof -
  have h: "hitTest (imageryLayers w) p 0 =
             Inr (map_option fst (find (\<lambda>(j, l). hit l p) (enumerate 0 (imageryLayers w))))"
    using hitTest_find [OF bounded] .
  have first: "popup_calls (world_of (click p w)) =
           popup_calls w @ map fst (take 1 (attachedLayersAt (imageryLayers w) p))"
    unfolding attachedLayersAt_def find_take_filter click_listening [OF listening] h
    by (simp add: openPopup_def split: option.splits)
  have same: "(\<forall>l \<in> set (imageryLayers w). on_map l) \<Longrightarrow>
          attachedLayersAt (imageryLayers w) p = layersAt (imageryLayers w) p"
    unfolding attachedLayersAt_def layersAt_def
    by (rule filter_cong) (auto simp: hit_def in_set_enumerate_eq)
  show ?thesis using first same by simp
qed

theorem click_opens_first_attached_layer_witness:
  "map_click ready_AB \<and> \<not> map_removed ready_AB \<and>
   map fst (layersAt (imageryLayers ready_AB) shared_corner) = [0, 1] \<and>
   popup_calls (world_of (click shared_corner ready_AB)) = popup_calls ready_AB @ [0]"
proof -
  have bounded: "\<forall>l \<in> set (imageryLayers ready_AB). on_map l \<longrightarrow> opt_bounds l \<noteq> EmptyBounds"
    by (simp add: ready_AB_layers layer_A_def layer_B_def bounds_A_def bounds_B_def)
  have attached: "\<forall>l \<in> set (imageryLayers ready_AB). on_map l"
    by (simp add: ready_AB_layers layer_A_def layer_B_def)
  have at: "map fst (layersAt (imageryLayers ready_AB) shared_corner) = [0, 1]"
    by (simp add: ready_AB_layers layersAt_def layer_A_def layer_B_def bounds_A_def bounds_B_def shared_corner_def)
  then have at1: "map fst (take 1 (layersAt (imageryLayers ready_AB) shared_corner)) = [0]"
    by (simp add: take_map [symmetric] del: take_map)
  have "popup_calls (world_of (click shared_corner ready_AB)) =
          popup_calls ready_AB @ map fst (take 1 (layersAt (imageryLayers ready_AB) shared_corner))"
    using click_opens_first_attached_layer [OF ready_AB_listening(1,2) bounded, of shared_corner]
      attached by blast
  then have "popup_calls (world_of (click shared_corner ready_AB)) = popup_calls ready_AB @ [0]"
    by (simp only: at1)
  then show ?thesis using at ready_AB_listening(1,2) by blast
qed

text \<open>
  The claim as stated fails once the first containing layer is switched off: both
  layers contain the shared corner, A is first in the registry, and the popup opens on B.
\<close>

theorem first_containing_layer_detached_counterexample:
  "map fst (layersAt (imageryLayers A_switched_off) shared_corner) = [0, 1] \<and>
   click_calls shared_corner A_switched_off = [1]"
  using A_switched_off_listening
  by (simp add: A_switched_off_layers layersAt_def click_calls_def click_def openPopup_def
      layer_A_def layer_B_def bounds_A_def bounds_B_def shared_corner_def)


text \<open>
  Claim C10. While the component listens to clicks, only a layer that is on the map and
  whose bounds contain the point ever receives \<^verbatim>\<open>openPopup\<close>, so a layer that was switched
  off never does; the first such layer in registry order receives the one call; and when
  no layer on the map contains the point the click changes nothing.
\<close>

theorem detached_layers_skipped:
  assumes listening: "map_click w" "\<not> map_removed w"
      and bounded: "\<forall>l \<in> set (imageryLayers w). on_map l \<longrightarrow> opt_bounds l \<noteq> EmptyBounds"
  shows "(\<forall>j \<in> set (click_calls p w).
            j < length (imageryLayers w) \<and> on_map (imageryLayers w ! j) \<and>
            contains (opt_bounds (imageryLayers w ! j)) p = Some True) \<and>
         (\<forall>j < length (imageryLayers w).
            hit (imageryLayers w ! j) p \<and> (\<forall>k < j. \<not> hit (imageryLayers w ! k) p) \<longrightarrow>
            click p w = Returned (openPopup j w) \<and> click_calls p w = [j]) \<and>
         ((\<forall>l \<in> set (imageryLayers w). \<not> hit l p) \<longrightarrow> click p w = Returned w)"
proof -
  note c = click_listening [OF listening, of p]
  have a: "\<forall>j \<in> set (click_calls p w).
            j < length (imageryLayers w) \<and> on_map (imageryLayers w ! j) \<and>
            contains (opt_bounds (imageryLayers w ! j)) p = Some True"
  proof (cases "hitTest (imageryLayers w) p 0")
    case (Inl e)
    then show ?thesis using c by (simp add: click_calls_def)
  next
    case (Inr r)
    show ?thesis
    proof (cases r)
      case None
      then show ?thesis using c Inr by (simp add: click_calls_def)
    next
      case (Some n)
      then have "n < length (imageryLayers w) \<and> hit (imageryLayers w ! n) p"
        using hitTest_Some [of "imageryLayers w" p 0 n] Inr by simp
      moreover have "click_calls p w = [n]"
        using c Inr Some by (simp add: click_calls_def openPopup_def)
      ultimately show ?thesis by (simp add: hit_def)
    qed
  qed
  have b: "\<forall>j < length (imageryLayers w).
            hit (imageryLayers w ! j) p \<and> (\<forall>k < j. \<not> hit (imageryLayers w ! k) p) \<longrightarrow>
            click p w = Returned (openPopup j w) \<and> click_calls p w = [j]"
  proof (intro allI impI)
    fix j
    assume j: "j < length (imageryLayers w)"
      and f: "hit (imageryLayers w ! j) p \<and> (\<forall>k < j. \<not> hit (imageryLayers w ! k) p)"
    have "hitTest (imageryLayers w) p 0 = Inr (Some (0 + j))"
      using hitTest_first [OF bounded j] f by blast
    then show "click p w = Returned (openPopup j w) \<and> click_calls p w = [j]"
      using c by (simp add: click_calls_def openPopup_def)
  qed
  have n: "(\<forall>l \<in> set (imageryLayers w). \<not> hit l p) \<longrightarrow> click p w = Returned w"
    using hitTest_none [OF bounded] c by simp
  show ?thesis using a b n by blast
qed

theorem detached_layers_skipped_witness:
  "map_click A_switched_off \<and> \<not> map_removed A_switched_off \<and>
   \<not> on_map (imageryLayers A_switched_off ! 0) \<and>
   contains (opt_bounds (imageryLayers A_switched_off ! 0)) shared_corner = Some True \<and>
   hit (imageryLayers A_switched_off ! 1) shared_corner \<and>
   click_calls shared_corner A_switched_off = [1]"
proof -
  let ?w = "A_switched_off"
  have bounded: "\<forall>l \<in> set (imageryLayers ?w). on_map l \<longrightarrow> opt_bounds l \<noteq> EmptyBounds"
    by (simp add: A_switched_off_layers layer_A_def layer_B_def bounds_A_def bounds_B_def)
  have d0: "\<not> on_map (imageryLayers ?w ! 0)"
    by (simp add: A_switched_off_layers)
  then have h0: "\<not> hit (imageryLayers ?w ! 0) shared_corner"
    by (simp add: hit_def)
  have c0: "contains (opt_bounds (imageryLayers ?w ! 0)) shared_corner = Some True"
    by (simp add: A_switched_off_layers layer_A_def layer_B_def bounds_A_def shared_corner_def)
  have h1: "hit (imageryLayers ?w ! 1) shared_corner"
    by (simp add: A_switched_off_layers hit_def layer_A_def layer_B_def bounds_B_def shared_corner_def)
  have first: "\<forall>k < 1. \<not> hit (imageryLayers ?w ! k) shared_corner"
    using h0 by simp
  have len: "1 < length (imageryLayers ?w)" by (simp add: A_switched_off_layers)
  have "click_calls shared_corner ?w = [1]"
    using detached_layers_skipped [OF A_switched_off_listening bounded, of shared_corner]
      h1 first len by blast
  then show ?thesis using d0 c0 h1 A_switched_off_listening by blast
qed

section \<open>Teardown\<close>

text \<open>
  Claim C2, evaluated on the code. With the two requests of the scenario outstanding,
  \<^verbatim>\<open>componentWillUnmount\<close> removes the map and then throws a TypeError at the first
  iteration of its loop: no request is aborted and the list of requests is not reset, so
  both requests stay in flight with their handlers. A second call throws again.
\<close>

theorem unmount_throws_before_abort:
  "componentWillUnmount (mount 7 heap_AB props_AB) =
     Threw TypeError ((mount 7 heap_AB props_AB)\<lparr>map_removed := True\<rparr>) \<and>
   tileJsonRequests (step (mount 7 heap_AB props_AB) Unmount) =
     Some [\<lparr>req_url = ''A'', req_meta = 0\<rparr>, \<lparr>req_url = ''B'', req_meta = 1\<rparr>] \<and>
   componentWillUnmount (step (mount 7 heap_AB props_AB) Unmount) =
     Threw TypeError (step (mount 7 heap_AB props_AB) Unmount) \<and>
   map_removed (step (mount 7 heap_AB props_AB) Unmount)"
  by (simp add: model_defs scenario_defs Let_def)

section \<open>Opacity\<close>

text \<open>
  Claim C8, as amended. Applying an opacity \<open>v\<close> is idempotent and sets the opacity of
  every layer of \<^verbatim>\<open>this.imageryLayers\<close> to \<open>v / 100\<close>, whatever the state of the load: apart
  from the prop itself nothing else changes, and the layers stay as they were exactly
  when each of them already had that opacity (in particular when none is loaded yet).
\<close>

theorem opacity_applied_in_every_state:
  "applyOpacity v (applyOpacity v w) = applyOpacity v w \<and>
   componentDidUpdate (componentDidUpdate w) = componentDidUpdate w \<and>
   (\<forall>l \<in> set (imageryLayers (applyOpacity v w)). opt_opacity l = v / 100) \<and>
   applyOpacity v w =
     w\<lparr>this_props := (this_props w)\<lparr>opacity := v\<rparr>,
       imageryLayers := map (\<lambda>l. l\<lparr>opt_opacity := v / 100\<rparr>) (imageryLayers w)\<rparr> \<and>
   ((imageryLayers (applyOpacity v w) = imageryLayers w) =
      (\<forall>l \<in> set (imageryLayers w). opt_opacity l = v / 100))"
proof -
  have same: "(map (\<lambda>l. l\<lparr>opt_opacity := v / 100\<rparr>) ls = ls) =
              (\<forall>l \<in> set ls. opt_opacity l = v / 100)" for ls :: "tileLayer list"
  proof (induction ls)
    case Nil
    then show ?case by simp
  next
    case (Cons l ls)
    have "(l\<lparr>opt_opacity := v / 100\<rparr> = l) = (opt_opacity l = v / 100)"
      by (cases l) auto
    then show ?case using Cons.IH by simp
  qed
  show ?thesis
    using same [of "imageryLayers w"]
    by (simp add: applyOpacity_def componentDidUpdate_def comp_def)
qed

theorem opacity_applied_in_every_state_witness:
  "imageryLayers (load 7 heap_AB props_AB sched_B_fails_then_A) = [layer_A] \<and>
   opt_opacity layer_A = 1 \<and>
   imageryLayers (applyOpacity 50 (load 7 heap_AB props_AB sched_B_fails_then_A)) =
     [layer_A\<lparr>opt_opacity := 1 / 2\<rparr>] \<and>
   imageryLayers (applyOpacity 100 (load 7 heap_AB props_AB sched_B_fails_then_A)) = [layer_A] \<and>
   imageryLayers (mount 7 heap_AB props_AB) = [] \<and>
   imageryLayers (applyOpacity 50 (mount 7 heap_AB props_AB)) = []"
proof -
  let ?failed = "load 7 heap_AB props_AB sched_B_fails_then_A"
  have l: "imageryLayers ?failed = [layer_A]"
    by (simp add: model_defs scenario_defs Let_def)
  have e: "imageryLayers (mount 7 heap_AB props_AB) = []"
    by (simp add: model_defs scenario_defs Let_def)
  have o: "opt_opacity layer_A = 1" by (simp add: layer_A_def)
  have half: "imageryLayers (applyOpacity 50 ?failed) = [layer_A\<lparr>opt_opacity := 1 / 2\<rparr>]"
    using opacity_applied_in_every_state [of 50 ?failed] l
    by simp
  have "(imageryLayers (applyOpacity 100 ?failed) = imageryLayers ?failed) =
          (\<forall>l \<in> set (imageryLayers ?failed). opt_opacity l = 100 / 100)"
    using opacity_applied_in_every_state [of 100 ?failed] by blast
  then have full: "imageryLayers (applyOpacity 100 ?failed) = [layer_A]"
    using l o by simp
  have "(imageryLayers (applyOpacity 50 (mount 7 heap_AB props_AB)) =
           imageryLayers (mount 7 heap_AB props_AB)) =
          (\<forall>l \<in> set (imageryLayers (mount 7 heap_AB props_AB)). opt_opacity l = 50 / 100)"
    using opacity_applied_in_every_state [of 50 "mount 7 heap_AB props_AB"] by blast
  then have none: "imageryLayers (applyOpacity 50 (mount 7 heap_AB props_AB)) = []"
    using e by simp
  show ?thesis using l o half full e none by blast
qed

text \<open>
  The claim as stated fails: after a failed load, and while a load is still running, the
  layer of A is in the registry and a change of opacity to 50 reaches it.
\<close>

theorem opacity_changes_failed_and_loading_counterexample:
  "each_called (load 7 heap_AB props_AB sched_A_then_B_500) \<and>
   map_overlays (load 7 heap_AB props_AB sched_A_then_B_500) = None \<and>
   map opt_opacity (imageryLayers (load 7 heap_AB props_AB sched_A_then_B_500)) = [1] \<and>
   map opt_opacity (imageryLayers (applyOpacity 50 (load 7 heap_AB props_AB sched_A_then_B_500))) = [1 / 2] \<and>
   \<not> each_called (load 7 heap_AB props_AB [(0, Success doc_A)]) \<and>
   map opt_opacity (imageryLayers (load 7 heap_AB props_AB [(0, Success doc_A)])) = [1] \<and>
   map opt_opacity (imageryLayers (applyOpacity 50 (load 7 heap_AB props_AB [(0, Success doc_A)]))) = [1 / 2]"
  by (simp add: model_defs scenario_defs Let_def)

section \<open>The properties of window\<close>

lemma settle_window_frame:
  "window_map (world_of (settle i r w)) = window_map w"
  "window_polygonArray (world_of (settle i r w)) = window_polygonArray w"
  "window_createPolygon (world_of (settle i r w)) = window_createPolygon w"
  by (simp_all add: settle_def on_done_def done_cb_frame
      split: option.splits jqResult.splits LatLngBounds.splits list.splits)

lemma click_window_frame:
  "window_map (world_of (click q w)) = window_map w"
  "window_polygonArray (world_of (click q w)) = window_polygonArray w"
  "window_createPolygon (world_of (click q w)) = window_createPolygon w"
  by (simp_all add: click_def openPopup_def split: sum.splits option.splits)

lemma unmount_window_frame:
  "window_map (world_of (componentWillUnmount w)) = window_map w"
  "window_polygonArray (world_of (componentWillUnmount w)) = window_polygonArray w"
  "window_createPolygon (world_of (componentWillUnmount w)) = window_createPolygon w"
  by (simp_all add: componentWillUnmount_def Let_def split: option.splits list.splits)

lemma step_window_frame:
  assumes "\<forall>ps col n. e \<noteq> CreatePolygon ps col n"
  shows "window_map (step w e) = window_map w \<and>
         window_polygonArray (step w e) = window_polygonArray w \<and>
         window_createPolygon (step w e) = window_createPolygon w"
  using assms
  by (cases e)
    (simp_all add: settle_window_frame click_window_frame unmount_window_frame
      applyOpacity_def componentDidUpdate_def toggleOverlay_def)

lemma mount_window:
  "window_map (world_of (componentDidMount w)) = Some (container w)"
  "this_map (world_of (componentDidMount w)) = Some (container w)"
  "window_polygonArray (world_of (componentDidMount w)) = Some []"
  "window_createPolygon (world_of (componentDidMount w))"
  by (simp_all add: componentDidMount_def Let_def once_callback_def callback_def split: option.splits)

lemma createPolygon_on_own_map:
  assumes "window_createPolygon w" "window_polygonArray w = Some arr"
      and "window_map w = Some h" "this_map w = Some h"
  shows "createPolygon ps col n w =
           Returned (w\<lparr>window_polygonArray := Some (arr @ [(n, \<lparr>points = ps, color = col\<rparr>)]),
                       map_polygons := map_polygons w @ [\<lparr>points = ps, color = col\<rparr>]\<rparr>)"
  using assms by (simp add: createPolygon_def Let_def)

text \<open>
  Claim C9, as amended. \<^verbatim>\<open>componentDidMount\<close> publishes the map handle of the instance as
  \<^verbatim>\<open>window.map\<close>, resets \<^verbatim>\<open>window.polygonArray\<close> to the empty array and installs
  \<^verbatim>\<open>window.createPolygon\<close>. That function appends to \<^verbatim>\<open>window.polygonArray\<close> and, with
  \<^verbatim>\<open>window.map\<close> being the map of the instance, adds the polygon to that map and changes
  nothing else. No other operation (a request completing, a click, an update, the
  unmount, a toggle) writes these properties of \<^verbatim>\<open>window\<close>.
\<close>

theorem window_globals_written:
  "window_map (world_of (componentDidMount w)) = Some (container w) \<and>
   this_map (world_of (componentDidMount w)) = Some (container w) \<and>
   window_polygonArray (world_of (componentDidMount w)) = Some [] \<and>
   window_createPolygon (world_of (componentDidMount w)) \<and>
   (window_createPolygon w \<and> window_polygonArray w = Some arr \<longrightarrow>
      window_polygonArray (world_of (createPolygon ps col n w)) =
        Some (arr @ [(n, \<lparr>points = ps, color = col\<rparr>)])) \<and>
   (window_createPolygon w \<and> window_polygonArray w = Some arr \<and>
    window_map w = Some h \<and> this_map w = Some h \<longrightarrow>
      createPolygon ps col n w =
        Returned (w\<lparr>window_polygonArray := Some (arr @ [(n, \<lparr>points = ps, color = col\<rparr>)]),
                    map_polygons := map_polygons w @ [\<lparr>points = ps, color = col\<rparr>]\<rparr>)) \<and>
   ((\<forall>ps col n. e \<noteq> CreatePolygon ps col n) \<longrightarrow>
      window_map (step w e) = window_map w \<and>
      window_polygonArray (step w e) = window_polygonArray w \<and>
      window_createPolygon (step w e) = window_createPolygon w)"
proof -
  have cp: "window_createPolygon w \<and> window_polygonArray w = Some arr \<longrightarrow>
      window_polygonArray (world_of (createPolygon ps col n w)) =
        Some (arr @ [(n, \<lparr>points = ps, color = col\<rparr>)])"
    by (simp add: createPolygon_def Let_def)
  show ?thesis
    using mount_window [of w] cp createPolygon_on_own_map [of w arr h ps col n]
      step_window_frame [of e w]
    by blast
qed

theorem window_globals_written_witness:
  "window_createPolygon (mount 7 heap_AB props_AB) \<and>
   window_polygonArray (mount 7 heap_AB props_AB) = Some [] \<and>
   window_map (mount 7 heap_AB props_AB) = Some 7 \<and>
   this_map (mount 7 heap_AB props_AB) = Some 7 \<and>
   window_polygonArray
     (world_of (createPolygon [shared_corner] ''red'' ''field'' (mount 7 heap_AB props_AB))) =
     Some [(''field'', \<lparr>points = [shared_corner], color = ''red''\<rparr>)] \<and>
   map_polygons
     (world_of (createPolygon [shared_corner] ''red'' ''field'' (mount 7 heap_AB props_AB))) =
     [\<lparr>points = [shared_corner], color = ''red''\<rparr>] \<and>
   window_map (step (mount 7 heap_AB props_AB) (Settle 0 (Success doc_A))) = Some 7"
proof -
  let ?w = "mount 7 heap_AB props_AB"
  have c: "window_createPolygon ?w" "window_polygonArray ?w = Some []" "window_map ?w = Some 7"
    "this_map ?w = Some 7" "map_polygons ?w = []"
    by (simp_all add: model_defs scenario_defs Let_def)
  have e: "\<forall>ps col n. Settle 0 (Success doc_A) \<noteq> CreatePolygon ps col n" by simp
  have "createPolygon [shared_corner] ''red'' ''field'' ?w =
          Returned (?w\<lparr>window_polygonArray :=
                         Some ([] @ [(''field'', \<lparr>points = [shared_corner], color = ''red''\<rparr>)]),
                       map_polygons := map_polygons ?w @ [\<lparr>points = [shared_corner], color = ''red''\<rparr>]\<rparr>)"
    using window_globals_written [of ?w "[]" "[shared_corner]" "''red''" "''field''" 7] c
    by blast
  then have p: "window_polygonArray (world_of (createPolygon [shared_corner] ''red'' ''field'' ?w)) =
                  Some [(''field'', \<lparr>points = [shared_corner], color = ''red''\<rparr>)]"
    "map_polygons (world_of (createPolygon [shared_corner] ''red'' ''field'' ?w)) =
       [\<lparr>points = [shared_corner], color = ''red''\<rparr>]"
    using c(5) by simp_all
  have "window_map (step ?w (Settle 0 (Success doc_A))) = window_map ?w"
    using window_globals_written [of ?w "[]" "[]" "[]" "[]" 0 "Settle 0 (Success doc_A)"] e
    by blast
  then show ?thesis using c p by simp
qed

text \<open>
  The claim as stated fails: mounting writes \<^verbatim>\<open>window.map\<close> and \<^verbatim>\<open>window.polygonArray\<close>, and
  \<^verbatim>\<open>window.createPolygon\<close> grows the global array.
\<close>

theorem window_globals_counterexample:
  "window_map (constructor 7 heap_AB props_AB) = None \<and>
   window_map (mount 7 heap_AB props_AB) = Some 7 \<and>
   window_polygonArray (constructor 7 heap_AB props_AB) = None \<and>
   window_polygonArray (mount 7 heap_AB props_AB) = Some [] \<and>
   window_polygonArray
     (run (mount 7 heap_AB props_AB) [CreatePolygon [shared_corner] ''red'' ''field'']) =
     Some [(''field'', \<lparr>points = [shared_corner], color = ''red''\<rparr>)]"
  by (simp add: model_defs scenario_defs Let_def)

section \<open>The descriptors and their meta objects\<close>

lemma settle_meta_frame:
  "project (metas (world_of (settle i r w)) x) = project (metas w x)"
  "task (metas (world_of (settle i r w)) x) = task (metas w x)"
  "tiles (this_props (world_of (settle i r w))) = tiles (this_props w)"
  by (simp_all add: settle_def on_done_def done_cb_frame
      split: option.splits jqResult.splits LatLngBounds.splits list.splits)

lemma step_meta_frame:
  "project (metas (step w e) x) = project (metas w x) \<and>
   task (metas (step w e) x) = task (metas w x) \<and>
   tiles (this_props (step w e)) = tiles (this_props w)"
  by (cases e)
    (simp_all add: settle_meta_frame click_def openPopup_def applyOpacity_def
      componentDidUpdate_def componentWillUnmount_def toggleOverlay_def createPolygon_def
      Let_def split: sum.splits option.splits list.splits)

lemma run_meta_frame:
  "project (metas (run w es) x) = project (metas w x) \<and>
   task (metas (run w es) x) = task (metas w x) \<and>
   tiles (this_props (run w es)) = tiles (this_props w)"
proof (induction es arbitrary: w)
  case Nil
  then show ?case by (simp add: run_Nil)
next
  case (Cons e es)
  then show ?case using step_meta_frame [of w e x] by (simp add: run_Cons)
qed

text \<open>
  Claim C7, as amended. Every run of events leaves the descriptor list of the props (each
  descriptor's url and the reference to its meta object) as it was, and leaves \<^verbatim>\<open>project\<close>
  and \<^verbatim>\<open>task\<close> of every meta object as they were. A successful request for descriptor \<open>i\<close>
  with a valid document stores that descriptor's meta object (by reference) in the layer
  it pushes and assigns the document's name to the object's \<^verbatim>\<open>name\<close>.
\<close>

theorem meta_shared_and_named:
  "(\<forall>x. project (metas (run w es) x) = project (metas w x) \<and>
        task (metas (run w es) x) = task (metas w x)) \<and>
   tiles (this_props (run w es)) = tiles (this_props w) \<and>
   (tileJsonRequests w =
      Some (map (\<lambda>t. \<lparr>req_url = url t, req_meta = tile_meta t\<rparr>) (tiles (this_props w))) \<and>
    i < length (tiles (this_props w)) \<and> valid_document info \<longrightarrow>
      imageryLayers (step w (Settle i (Success info))) =
        imageryLayers w @
          [new_layer info (hd (info_tiles info)) (layerBounds info)
             (tile_meta (tiles (this_props w) ! i))] \<and>
      layer_meta (last (imageryLayers (step w (Settle i (Success info))))) =
        tile_meta (tiles (this_props w) ! i) \<and>
      metas (step w (Settle i (Success info))) =
        (metas w)(tile_meta (tiles (this_props w) ! i) :=
                    (metas w (tile_meta (tiles (this_props w) ! i)))
                      \<lparr>meta_name := Some (info_name info)\<rparr>))"
proof -
  have frame: "(\<forall>x. project (metas (run w es) x) = project (metas w x) \<and>
        task (metas (run w es) x) = task (metas w x)) \<and>
        tiles (this_props (run w es)) = tiles (this_props w)"
    using run_meta_frame by blast
  have named: "tileJsonRequests w =
      Some (map (\<lambda>t. \<lparr>req_url = url t, req_meta = tile_meta t\<rparr>) (tiles (this_props w))) \<and>
    i < length (tiles (this_props w)) \<and> valid_document info \<longrightarrow>
      imageryLayers (step w (Settle i (Success info))) =
        imageryLayers w @
          [new_layer info (hd (info_tiles info)) (layerBounds info)
             (tile_meta (tiles (this_props w) ! i))] \<and>
      layer_meta (last (imageryLayers (step w (Settle i (Success info))))) =
        tile_meta (tiles (this_props w) ! i) \<and>
      metas (step w (Settle i (Success info))) =
        (metas w)(tile_meta (tiles (this_props w) ! i) :=
                    (metas w (tile_meta (tiles (this_props w) ! i)))
                      \<lparr>meta_name := Some (info_name info)\<rparr>)"
    by (simp add: settle_def on_done_valid new_layer_def)
  show ?thesis using frame named by blast
qed

theorem meta_shared_and_named_witness:
  "tileJsonRequests (mount 7 heap_AB props_AB) =
     Some (map (\<lambda>t. \<lparr>req_url = url t, req_meta = tile_meta t\<rparr>)
             (tiles (this_props (mount 7 heap_AB props_AB)))) \<and>
   valid_document doc_B \<and>
   tiles (this_props (run (mount 7 heap_AB props_AB) [Settle 1 (Success doc_B)])) =
     [\<lparr>url = ''A'', tile_meta = 0\<rparr>, \<lparr>url = ''B'', tile_meta = 1\<rparr>] \<and>
   imageryLayers (step (mount 7 heap_AB props_AB) (Settle 1 (Success doc_B))) = [layer_B] \<and>
   metas (step (mount 7 heap_AB props_AB) (Settle 1 (Success doc_B))) 1 =
     \<lparr>project = 1, task = 1, meta_name = Some ''B''\<rparr> \<and>
   metas (step (mount 7 heap_AB props_AB) (Settle 1 (Success doc_B))) 0 =
     \<lparr>project = 1, task = 0, meta_name = None\<rparr>"
proof -
  let ?w = "mount 7 heap_AB props_AB"
  have pr: "this_props ?w = props_AB"
    by (simp add: model_defs scenario_defs Let_def)
  have r: "tileJsonRequests ?w =
     Some (map (\<lambda>t. \<lparr>req_url = url t, req_meta = tile_meta t\<rparr>) (tiles (this_props ?w)))"
    using mount_requests [of 7 heap_AB props_AB] pr by simp
  have i: "1 < length (tiles (this_props ?w))" unfolding pr by (simp add: props_AB_def)
  have v: "valid_document doc_B" by (simp add: valid_document_def doc_B_def)
  have e: "imageryLayers ?w = []" "metas ?w = heap_AB"
    by (simp_all add: model_defs scenario_defs Let_def)
  have t: "tile_meta (tiles (this_props ?w) ! 1) = 1" unfolding pr by (simp add: props_AB_def)
  have b: "layerBounds doc_B = bounds_B"
    by (simp add: layerBounds_def corners_def slice_def latLngBounds_def doc_B_def bounds_B_def)
  have n: "new_layer doc_B (hd (info_tiles doc_B)) bounds_B 1 = layer_B"
    by (simp add: new_layer_def layer_B_def doc_B_def)
  note th = meta_shared_and_named [of ?w "[Settle 1 (Success doc_B)]" 1 doc_B]
  have tl: "tiles (this_props (run ?w [Settle 1 (Success doc_B)])) =
              [\<lparr>url = ''A'', tile_meta = 0\<rparr>, \<lparr>url = ''B'', tile_meta = 1\<rparr>]"
    using th pr by (simp add: props_AB_def)
  have "imageryLayers (step ?w (Settle 1 (Success doc_B))) =
          imageryLayers ?w @
            [new_layer doc_B (hd (info_tiles doc_B)) (layerBounds doc_B)
               (tile_meta (tiles (this_props ?w) ! 1))] \<and>
        metas (step ?w (Settle 1 (Success doc_B))) =
          (metas ?w)(tile_meta (tiles (this_props ?w) ! 1) :=
             (metas ?w (tile_meta (tiles (this_props ?w) ! 1)))\<lparr>meta_name := Some (info_name doc_B)\<rparr>)"
    using th r i v by blast
  then have "imageryLayers (step ?w (Settle 1 (Success doc_B))) = [layer_B] \<and>
        metas (step ?w (Settle 1 (Success doc_B))) =
          heap_AB(1 := (heap_AB 1)\<lparr>meta_name := Some ''B''\<rparr>)"
    using e t b n by (simp add: doc_B_def)
  then show ?thesis using r v tl by (simp add: heap_AB_def)
qed

text \<open>
  The claim as stated fails: loading A writes \<^verbatim>\<open>name\<close> into the meta object of the first
  descriptor.
\<close>

theorem meta_object_modified_counterexample:
  "tile_meta (tiles props_AB ! 0) = 0 \<and>
   meta_name (heap_AB 0) = None \<and>
   meta_name (metas (load 7 heap_AB props_AB [(0, Success doc_A)]) 0) = Some ''A''"
  by (simp add: model_defs scenario_defs Let_def)

end
